theory Spec2Isabelle
  imports Complex_Main "HOL-Library.Word"
begin

section \<open>The environmental monitoring node of main.py\<close>

text \<open>
  A shallow embedding of \<^verbatim>\<open>src/main.py\<close>: the sensor readers, the telemetry sender,
  the two actuator drivers, the command poller and the body of the main loop.
  Python's module globals (\<^verbatim>\<open>last_sent_temp\<close>, \<^verbatim>\<open>last_sent_humid\<close>,
  \<^verbatim>\<open>last_sent_pm2_5\<close>, \<^verbatim>\<open>auto_fan_enabled\<close>, \<^verbatim>\<open>led_enabled\<close>) and the
  levels of the output pins form one state record that every function takes and returns.
  What the outside world answers in one cycle (the HTTP responses, the sensor devices,
  the level of the gas sensor's input pin) is a record of inputs for that cycle.
  Console output (\<^verbatim>\<open>print\<close>) and the five second sleep are not modelled.
\<close>

subsection \<open>Python values and exceptions\<close>

text \<open>
  The exception classes that the modelled operations raise. All but the last two derive
  from \<^verbatim>\<open>Exception\<close>; \<^verbatim>\<open>KeyboardInterrupt\<close> and \<^verbatim>\<open>SystemExit\<close> derive from
  \<^verbatim>\<open>BaseException\<close> only. In \<^verbatim>\<open>requests\<close> a body that is not JSON raises a
  \<^verbatim>\<open>JSONDecodeError\<close>, a subclass of \<^verbatim>\<open>RequestException\<close>.
\<close>

datatype exn =
    RequestException
  | JSONDecodeError
  | KeyError
  | IndexError
  | TypeError
  | AttributeError
  | KeyboardInterrupt
  | SystemExit

fun is_RequestException :: "exn \<Rightarrow> bool" where
  "is_RequestException RequestException = True"
| "is_RequestException JSONDecodeError = True"
| "is_RequestException _ = False"

fun is_Exception :: "exn \<Rightarrow> bool" where
  "is_Exception KeyboardInterrupt = False"
| "is_Exception SystemExit = False"
| "is_Exception _ = True"

text \<open>
  What \<^verbatim>\<open>response.json()\<close> can return: \<^verbatim>\<open>None\<close>, a bool, an int, a float, a string,
  a list or a dict with string keys. A dict is kept as the list of its members in document
  order; a repeated key takes its last value, as Python's parser does.
\<close>

datatype json =
    JNull
  | JBool bool
  | JInt int
  | JFloat real
  | JStr string
  | JArr "json list"
  | JObj "(string \<times> json) list"

text \<open>Python's truth value, as \<^verbatim>\<open>if not commands\<close> tests it.\<close>

fun truthy :: "json \<Rightarrow> bool" where
  "truthy JNull = False"
| "truthy (JBool b) = b"
| "truthy (JInt i) = (i \<noteq> 0)"
| "truthy (JFloat x) = (x \<noteq> 0)"
| "truthy (JStr s) = (s \<noteq> [])"
| "truthy (JArr xs) = (xs \<noteq> [])"
| "truthy (JObj kvs) = (kvs \<noteq> [])"

text \<open>
  \<^verbatim>\<open>commands[0]\<close>: the first element of a list, the first character of a string,
  \<^verbatim>\<open>KeyError\<close> on a dict (its keys are strings, never the integer 0),
  \<^verbatim>\<open>TypeError\<close> on everything that is not subscriptable.
\<close>

fun getitem0 :: "json \<Rightarrow> exn + json" where
  "getitem0 (JArr (x # xs)) = Inr x"
| "getitem0 (JArr []) = Inl IndexError"
| "getitem0 (JStr (c # cs)) = Inr (JStr [c])"
| "getitem0 (JStr []) = Inl IndexError"
| "getitem0 (JObj kvs) = Inl KeyError"
| "getitem0 JNull = Inl TypeError"
| "getitem0 (JBool b) = Inl TypeError"
| "getitem0 (JInt i) = Inl TypeError"
| "getitem0 (JFloat x) = Inl TypeError"

text \<open>
  \<^verbatim>\<open>latest_command.get(key)\<close>: the member's value, \<^verbatim>\<open>None\<close> when the dict has no such
  key, \<^verbatim>\<open>AttributeError\<close> when the value is not a dict.
\<close>

fun dict_get :: "json \<Rightarrow> string \<Rightarrow> exn + json" where
  "dict_get (JObj kvs) key =
     Inr (case map_of (rev kvs) key of None \<Rightarrow> JNull | Some v \<Rightarrow> v)"
| "dict_get JNull key = Inl AttributeError"
| "dict_get (JBool b) key = Inl AttributeError"
| "dict_get (JInt i) key = Inl AttributeError"
| "dict_get (JFloat x) key = Inl AttributeError"
| "dict_get (JStr s) key = Inl AttributeError"
| "dict_get (JArr xs) key = Inl AttributeError"

subsection \<open>The outside world\<close>

text \<open>
  The outcome of one HTTP request: the transport fails (\<^verbatim>\<open>requests\<close> raises a
  \<^verbatim>\<open>RequestException\<close>), or a response arrives with a status code and a body.
\<close>

datatype http_body = NotJson | JsonBody json

datatype http_result = TransportError | Response nat http_body

fun response_json :: "http_body \<Rightarrow> exn + json" where
  "response_json NotJson = Inl JSONDecodeError"
| "response_json (JsonBody j) = Inr j"

type_synonym byte = "8 word"

text \<open>
  The DHT11 handle: reading either property raises or returns a number, or \<^verbatim>\<open>None\<close>
  before the first good measurement. What is raised may be any of the classes above,
  an interrupt that arrives during the read among them.
\<close>

record dht11 =
  temperature :: "exn + real option"
  humidity :: "exn + real option"

text \<open>
  The serial port of the PMS7003: the bytes waiting in its input buffer, and whether
  touching the port raises in this cycle (a \<^verbatim>\<open>SerialException\<close>, which derives from
  \<^verbatim>\<open>Exception\<close>).
\<close>

record serial_port =
  io_fault :: bool
  in_buf :: "byte list"

text \<open>The value posted to the backend: a float for the DHT11 readings, an int for PM2.5.\<close>

datatype pyval = PyFloat real | PyInt int

record inputs =
  control_response :: http_result
  dht_device :: "dht11 option"
  ser :: "serial_port option"
  gpio_in :: "int \<Rightarrow> bool"
  post_response :: "string \<Rightarrow> pyval \<Rightarrow> http_result"

subsection \<open>State\<close>

datatype event =
    GpioOutput int bool
  | HttpPost string pyval
  | HttpGet

record state =
  last_sent_temp :: "real option"
  last_sent_humid :: "real option"
  last_sent_pm2_5 :: "int option"
  auto_fan_enabled :: bool
  led_enabled :: bool
  gpio :: "int \<Rightarrow> bool"
  trace :: "event list"

abbreviation (input) HIGH :: bool where "HIGH \<equiv> True"
abbreviation (input) LOW :: bool where "LOW \<equiv> False"

definition DHT_PIN :: int where "DHT_PIN = 4"
definition MQ135_PIN :: int where "MQ135_PIN = 17"
definition FAN_PIN :: int where "FAN_PIN = 18"

definition LED_PINS :: "(string \<times> int) list" where
  "LED_PINS = [(''good'', 27), (''moderate'', 22), (''bad'', 23), (''off'', -1)]"

definition AUTO_FAN_TEMP_THRESHOLD :: real where "AUTO_FAN_TEMP_THRESHOLD = 30.0"
definition AUTO_FAN_PM25_THRESHOLD :: int where "AUTO_FAN_PM25_THRESHOLD = 75"

text \<open>\<^verbatim>\<open>GPIO.output(pin, level)\<close>: the pin takes the level and the write is recorded.\<close>

definition GPIO_output :: "int \<Rightarrow> bool \<Rightarrow> state \<Rightarrow> state" where
  "GPIO_output pin level st =
     st\<lparr>gpio := (gpio st)(pin := level), trace := trace st @ [GpioOutput pin level]\<rparr>"

text \<open>\<^verbatim>\<open>GPIO.input(pin)\<close> returns 1 for a high pin and 0 for a low one.\<close>

definition GPIO_input :: "(int \<Rightarrow> bool) \<Rightarrow> int \<Rightarrow> int" where
  "GPIO_input levels pin = (if levels pin then 1 else 0)"

text \<open>
  The state after \<^verbatim>\<open>setup_gpio\<close>, with the module's initial globals: nothing sent
  yet, both features enabled, the LED pins and the fan pin low.
\<close>

definition initial_state :: state where
  "initial_state =
     \<lparr>last_sent_temp = None, last_sent_humid = None, last_sent_pm2_5 = None,
      auto_fan_enabled = True, led_enabled = True,
      gpio = (\<lambda>pin. LOW), trace = []\<rparr>"

subsection \<open>Sensors\<close>

definition py_float :: "real option \<Rightarrow> exn + real" where
  "py_float v = (case v of None \<Rightarrow> Inl TypeError | Some x \<Rightarrow> Inr x)"

text \<open>
  The \<^verbatim>\<open>try\<close> block of \<^verbatim>\<open>read_dht11\<close>: the temperature is read and converted, then
  the humidity; \<^verbatim>\<open>float(None)\<close> raises a \<^verbatim>\<open>TypeError\<close>.
\<close>

definition read_dht11_try :: "dht11 \<Rightarrow> exn + real \<times> real" where
  "read_dht11_try d =
     (case temperature d of
        Inl e \<Rightarrow> Inl e
      | Inr tv \<Rightarrow>
          (case py_float tv of
             Inl e \<Rightarrow> Inl e
           | Inr t \<Rightarrow>
               (case humidity d of
                  Inl e \<Rightarrow> Inl e
                | Inr hv \<Rightarrow>
                    (case py_float hv of
                       Inl e \<Rightarrow> Inl e
                     | Inr h \<Rightarrow> Inr (t, h)))))"

text \<open>
  The handler is \<^verbatim>\<open>except Exception\<close>: it turns what derives from \<^verbatim>\<open>Exception\<close>
  into \<^verbatim>\<open>(None, None)\<close> and lets a \<^verbatim>\<open>KeyboardInterrupt\<close> or \<^verbatim>\<open>SystemExit\<close>
  leave the function.
\<close>

definition read_dht11 :: "dht11 option \<Rightarrow> exn + real option \<times> real option" where
  "read_dht11 dev =
     (case dev of
        None \<Rightarrow> Inr (None, None)
      | Some d \<Rightarrow>
          (case read_dht11_try d of
             Inr (t, h) \<Rightarrow> Inr (Some t, Some h)
           | Inl e \<Rightarrow> if is_Exception e then Inr (None, None) else Inl e))"

text \<open>\<^verbatim>\<open>int.from_bytes(bs, byteorder='big')\<close>.\<close>

definition int_from_bytes_big :: "byte list \<Rightarrow> int" where
  "int_from_bytes_big bs = foldl (\<lambda>acc b. acc * 256 + uint b) 0 bs"

text \<open>
  \<^verbatim>\<open>read_pms7003\<close> returns the reading and the port as the read leaves it:
  \<^verbatim>\<open>ser.read(32)\<close> takes 32 bytes out of the input buffer whether or not they start
  with the marker. \<^verbatim>\<open>data[12:14]\<close> is a slice, so it cannot raise.
\<close>

definition read_pms7003 :: "serial_port option \<Rightarrow> int option \<times> serial_port option" where
  "read_pms7003 port =
     (case port of
        None \<Rightarrow> (None, None)
      | Some p \<Rightarrow>
          if io_fault p then (None, Some p)
          else if length (in_buf p) \<ge> 32 then
            (let data = take 32 (in_buf p);
                 p' = p\<lparr>in_buf := drop 32 (in_buf p)\<rparr>
             in if data ! 0 = 0x42 \<and> data ! 1 = 0x4d
                then (Some (int_from_bytes_big (take 2 (drop 12 data))), Some p')
                else (None, Some p'))
          else (None, Some p))"

definition read_mq135 :: "(int \<Rightarrow> bool) \<Rightarrow> int" where
  "read_mq135 levels = GPIO_input levels MQ135_PIN"

subsection \<open>Telemetry\<close>

text \<open>
  \<^verbatim>\<open>send_to_backend\<close> posts once and returns \<^verbatim>\<open>None\<close> on every path; the three
  outcomes differ only in what is printed.
\<close>

definition send_to_backend ::
  "(string \<Rightarrow> pyval \<Rightarrow> http_result) \<Rightarrow> string \<Rightarrow> pyval \<Rightarrow> state \<Rightarrow> state" where
  "send_to_backend post sensor_type v st =
     (let st' = st\<lparr>trace := trace st @ [HttpPost sensor_type v]\<rparr>
      in case post sensor_type v of
           TransportError \<Rightarrow> st'
         | Response status_code body \<Rightarrow> if status_code = 201 then st' else st')"

subsection \<open>Actuators\<close>

definition set_led :: "string \<Rightarrow> state \<Rightarrow> state" where
  "set_led status st =
     (if status = ''off''
      then fold (\<lambda>(name, pin) s. if pin \<noteq> -1 then GPIO_output pin LOW s else s) LED_PINS st
      else fold (\<lambda>(name, pin) s.
                   if pin \<noteq> -1 then GPIO_output pin (if name = status then HIGH else LOW) s
                   else s) LED_PINS st)"

definition control_fan :: "bool \<Rightarrow> state \<Rightarrow> state" where
  "control_fan fan_state st = GPIO_output FAN_PIN (if fan_state then HIGH else LOW) st"

subsection \<open>Polling the control commands\<close>

text \<open>
  The body of the \<^verbatim>\<open>try\<close> block of \<^verbatim>\<open>apply_latest_commands\<close>. Every operation that
  can raise comes before the first assignment to a global, so an exception leaves the
  state as it was when the block was entered.
\<close>

definition apply_latest_commands_try :: "http_result \<Rightarrow> state \<Rightarrow> exn + state" where
  "apply_latest_commands_try r st =
     (case r of
        TransportError \<Rightarrow> Inl RequestException
      | Response status_code body \<Rightarrow>
          if status_code \<noteq> 200 then Inr st
          else
            (case response_json body of
               Inl e \<Rightarrow> Inl e
             | Inr commands \<Rightarrow>
                 if \<not> truthy commands then Inr st
                 else
                   (case getitem0 commands of
                      Inl e \<Rightarrow> Inl e
                    | Inr latest_command \<Rightarrow>
                        (case dict_get latest_command ''target'' of
                           Inl e \<Rightarrow> Inl e
                         | Inr target \<Rightarrow>
                             (case dict_get latest_command ''action'' of
                                Inl e \<Rightarrow> Inl e
                              | Inr action \<Rightarrow>
                                  if target = JStr ''led''
                                  then Inr (st\<lparr>led_enabled := (action = JStr ''on'')\<rparr>)
                                  else if target = JStr ''autoFan''
                                  then Inr (st\<lparr>auto_fan_enabled := (action = JStr ''enable'')\<rparr>)
                                  else if target = JStr ''fan''
                                  then
                                    (case dict_get latest_command ''source'' of
                                       Inl e \<Rightarrow> Inl e
                                     | Inr source \<Rightarrow>
                                         if source = JStr ''user''
                                         then Inr (control_fan (action = JStr ''on'')
                                                     (st\<lparr>auto_fan_enabled := False\<rparr>))
                                         else Inr st)
                                  else Inr st)))))"

text \<open>
  The whole function: the GET is issued, the block runs, and the two handlers
  (\<^verbatim>\<open>except requests.exceptions.RequestException\<close>, \<^verbatim>\<open>except Exception\<close>) print and
  return. An exception of neither class would leave the function.
\<close>

definition apply_latest_commands :: "http_result \<Rightarrow> state \<Rightarrow> exn + state" where
  "apply_latest_commands r st =
     (let st' = st\<lparr>trace := trace st @ [HttpGet]\<rparr>
      in case apply_latest_commands_try r st' of
           Inr s \<Rightarrow> Inr s
         | Inl e \<Rightarrow>
             if is_RequestException e then Inr st'
             else if is_Exception e then Inr st'
             else Inl e)"

subsection \<open>The main loop\<close>

text \<open>Step 3 of the loop body: the three changed-value sends, in the source's order.\<close>

definition send_changed ::
  "(string \<Rightarrow> pyval \<Rightarrow> http_result) \<Rightarrow> real option \<Rightarrow> real option \<Rightarrow> int option
     \<Rightarrow> state \<Rightarrow> state" where
  "send_changed post temp humid pm2_5 st =
     (let st1 = (case temp of
                   None \<Rightarrow> st
                 | Some t \<Rightarrow>
                     if last_sent_temp st \<noteq> Some t
                     then (send_to_backend post ''temperature'' (PyFloat t) st)
                            \<lparr>last_sent_temp := Some t\<rparr>
                     else st);
          st2 = (case humid of
                   None \<Rightarrow> st1
                 | Some h \<Rightarrow>
                     if last_sent_humid st1 \<noteq> Some h
                     then (send_to_backend post ''humidity'' (PyFloat h) st1)
                            \<lparr>last_sent_humid := Some h\<rparr>
                     else st1);
          st3 = (case pm2_5 of
                   None \<Rightarrow> st2
                 | Some p \<Rightarrow>
                     if last_sent_pm2_5 st2 \<noteq> Some p
                     then (send_to_backend post ''pm25'' (PyInt p) st2)
                            \<lparr>last_sent_pm2_5 := Some p\<rparr>
                     else st2)
      in st3)"

text \<open>Step 4, first half: the automatic fan.\<close>

definition auto_fan :: "real option \<Rightarrow> int option \<Rightarrow> state \<Rightarrow> state" where
  "auto_fan temp pm2_5 st =
     (if auto_fan_enabled st
      then
        (let is_hot = (case temp of None \<Rightarrow> False | Some t \<Rightarrow> t \<ge> AUTO_FAN_TEMP_THRESHOLD);
             is_dusty = (case pm2_5 of None \<Rightarrow> False | Some p \<Rightarrow> p \<ge> AUTO_FAN_PM25_THRESHOLD)
         in control_fan (is_hot \<or> is_dusty) st)
      else st)"

text \<open>Step 4, second half: the argument that \<^verbatim>\<open>set_led\<close> is called with.\<close>

definition led_status :: "bool \<Rightarrow> int option \<Rightarrow> int \<Rightarrow> string" where
  "led_status enabled pm2_5 air_quality_digital =
     (if enabled
      then (case pm2_5 of
              None \<Rightarrow> ''off''
            | Some p \<Rightarrow>
                if air_quality_digital = 0 \<and> p < 35 then ''good''
                else if air_quality_digital = 0 \<or> p < 75 then ''moderate''
                else ''bad'')
      else ''off'')"

text \<open>Steps 3 and 4 of the loop body, on the readings of step 2.\<close>

definition report_and_actuate ::
  "(string \<Rightarrow> pyval \<Rightarrow> http_result) \<Rightarrow> real option \<Rightarrow> real option \<Rightarrow> int option \<Rightarrow> int
     \<Rightarrow> state \<Rightarrow> state" where
  "report_and_actuate post temp humid pm2_5 air_quality_digital st =
     (let st3 = send_changed post temp humid pm2_5 st;
          st4 = auto_fan temp pm2_5 st3
      in set_led (led_status (led_enabled st4) pm2_5 air_quality_digital) st4)"

text \<open>
  Steps 2 to 4 of the loop body, which run on the state the command step leaves. An
  exception that \<^verbatim>\<open>read_dht11\<close> lets through leaves the loop body before anything is
  posted or any pin is written.
\<close>

definition sense_and_act :: "inputs \<Rightarrow> state \<Rightarrow> exn + state" where
  "sense_and_act inp st =
     (case read_dht11 (dht_device inp) of
        Inl e \<Rightarrow> Inl e
      | Inr (temp, humid) \<Rightarrow>
          (let pm2_5 = fst (read_pms7003 (ser inp));
               air_quality_digital = read_mq135 (gpio_in inp)
           in Inr (report_and_actuate (post_response inp) temp humid pm2_5
                     air_quality_digital st)))"

definition main_loop_body :: "inputs \<Rightarrow> state \<Rightarrow> exn + state" where
  "main_loop_body inp st =
     (case apply_latest_commands (control_response inp) st of
        Inl e \<Rightarrow> Inl e
      | Inr st1 \<Rightarrow> sense_and_act inp st1)"

text \<open>
  \<^verbatim>\<open>while True\<close> has no exit of its own. The loop is run for as many cycles as there
  are input records; an exception that leaves the body ends it.
\<close>

fun main_loop :: "inputs list \<Rightarrow> state \<Rightarrow> exn + state" where
  "main_loop [] st = Inr st"
| "main_loop (inp # inps) st =
     (case main_loop_body inp st of
        Inl e \<Rightarrow> Inl e
      | Inr st' \<Rightarrow> main_loop inps st')"

subsection \<open>Observing a run\<close>

text \<open>The events a step has added to the trace.\<close>

definition new_events :: "state \<Rightarrow> state \<Rightarrow> event list" where
  "new_events st st' = drop (length (trace st)) (trace st')"

text \<open>The levels written to one pin, in order.\<close>

fun gpio_writes :: "int \<Rightarrow> event list \<Rightarrow> bool list" where
  "gpio_writes pin [] = []"
| "gpio_writes pin (GpioOutput q level # evs) =
     (if q = pin then level # gpio_writes pin evs else gpio_writes pin evs)"
| "gpio_writes pin (e # evs) = gpio_writes pin evs"

text \<open>The values posted under one sensor type, in order.\<close>

fun posted :: "string \<Rightarrow> event list \<Rightarrow> pyval list" where
  "posted sensor_type [] = []"
| "posted sensor_type (HttpPost s v # evs) =
     (if s = sensor_type then v # posted sensor_type evs else posted sensor_type evs)"
| "posted sensor_type (e # evs) = posted sensor_type evs"

text \<open>All posts, in order.\<close>

fun posts :: "event list \<Rightarrow> (string \<times> pyval) list" where
  "posts [] = []"
| "posts (HttpPost s v # evs) = (s, v) # posts evs"
| "posts (e # evs) = posts evs"

text \<open>The PM2.5 reading of a cycle, as step 2 of the loop body binds it.\<close>

definition pm2_5_reading :: "inputs \<Rightarrow> int option" where
  "pm2_5_reading inp = fst (read_pms7003 (ser inp))"

subsection \<open>The specification's side\<close>

text \<open>
  The indicator level in the words of the specification: off when the indicator is
  disabled or PM2.5 is absent, good for a low gas signal with PM2.5 below 35, bad for a
  high gas signal with PM2.5 of 75 or more, moderate for the rest.
\<close>

definition indicator_level :: "bool \<Rightarrow> int option \<Rightarrow> int \<Rightarrow> string" where
  "indicator_level enabled pm25 gasDigital =
     (if \<not> enabled then ''off''
      else case pm25 of
             None \<Rightarrow> ''off''
           | Some p \<Rightarrow>
               if gasDigital = 0 \<and> p < 35 then ''good''
               else if gasDigital = 1 \<and> p \<ge> 75 then ''bad''
               else ''moderate'')"

text \<open>
  The rule table of the specification's command interpreter, for one directive given as
  the members of its object: \<open>led\<close> sets the indicator flag to whether the action is
  \<open>on\<close>; \<open>autoFan\<close> sets the auto-fan flag to whether the action is \<open>enable\<close>;
  \<open>fan\<close> from source \<open>user\<close> clears the auto-fan flag and drives the fan to whether
  the action is \<open>on\<close>; any other directive changes nothing. A member that is missing
  reads as \<^verbatim>\<open>None\<close>.
\<close>

definition member :: "(string \<times> json) list \<Rightarrow> string \<Rightarrow> json" where
  "member kvs key = (case map_of (rev kvs) key of None \<Rightarrow> JNull | Some v \<Rightarrow> v)"

definition interpret_directive :: "(string \<times> json) list \<Rightarrow> state \<Rightarrow> state" where
  "interpret_directive kvs st =
     (if member kvs ''target'' = JStr ''led''
      then st\<lparr>led_enabled := (member kvs ''action'' = JStr ''on'')\<rparr>
      else if member kvs ''target'' = JStr ''autoFan''
      then st\<lparr>auto_fan_enabled := (member kvs ''action'' = JStr ''enable'')\<rparr>
      else if member kvs ''target'' = JStr ''fan'' \<and> member kvs ''source'' = JStr ''user''
      then control_fan (member kvs ''action'' = JStr ''on'') (st\<lparr>auto_fan_enabled := False\<rparr>)
      else st)"

text \<open>
  The fetch outcomes that hand no object to the interpreter: a transport error, a status
  other than 200, a body that is not JSON, and a JSON body that is anything but a list
  whose first element is an object (the empty list among them). A list headed by an
  object is not among them, whatever members the object has.
\<close>

fun headed_by_object :: "json \<Rightarrow> bool" where
  "headed_by_object (JArr (JObj kvs # rest)) = True"
| "headed_by_object _ = False"

fun no_object_fetched :: "http_result \<Rightarrow> bool" where
  "no_object_fetched TransportError = True"
| "no_object_fetched (Response status_code NotJson) = True"
| "no_object_fetched (Response status_code (JsonBody j)) =
     (status_code \<noteq> 200 \<or> \<not> headed_by_object j)"

text \<open>Summaries of what steps 3 and 4 add to the trace, used to state the lemmas below.\<close>

definition changed_posts ::
  "state \<Rightarrow> real option \<Rightarrow> real option \<Rightarrow> int option \<Rightarrow> event list" where
  "changed_posts st temp humid pm2_5 =
     (case temp of
        None \<Rightarrow> []
      | Some t \<Rightarrow>
          if last_sent_temp st = Some t then [] else [HttpPost ''temperature'' (PyFloat t)])
     @ (case humid of
          None \<Rightarrow> []
        | Some h \<Rightarrow>
            if last_sent_humid st = Some h then [] else [HttpPost ''humidity'' (PyFloat h)])
     @ (case pm2_5 of
          None \<Rightarrow> []
        | Some p \<Rightarrow>
            if last_sent_pm2_5 st = Some p then [] else [HttpPost ''pm25'' (PyInt p)])"

definition fan_wanted :: "real option \<Rightarrow> int option \<Rightarrow> bool" where
  "fan_wanted temp pm2_5 =
     ((case temp of None \<Rightarrow> False | Some t \<Rightarrow> t \<ge> 30)
      \<or> (case pm2_5 of None \<Rightarrow> False | Some p \<Rightarrow> p \<ge> 75))"

definition decision_events :: "real option \<Rightarrow> int option \<Rightarrow> int \<Rightarrow> state \<Rightarrow> event list" where
  "decision_events temp pm2_5 air_quality_digital st =
     (if auto_fan_enabled st then [GpioOutput FAN_PIN (fan_wanted temp pm2_5)] else [])
     @ (let status = led_status (led_enabled st) pm2_5 air_quality_digital
        in [GpioOutput 27 (status = ''good''), GpioOutput 22 (status = ''moderate''),
            GpioOutput 23 (status = ''bad'')])"

subsection \<open>Concrete inputs\<close>

text \<open>A PMS7003 frame with the given bytes at offsets 12 and 13.\<close>

definition pms_frame :: "byte \<Rightarrow> byte \<Rightarrow> byte list" where
  "pms_frame hi lo =
     [0x42, 0x4d, 0x00, 0x1c, 0x00, 0x05, 0x00, 0x08, 0x00, 0x0a, 0x00, 0x05,
      hi, lo, 0x00, 0x0a, 0x00, 0x00, 0x00, 0x00, 0x00, 0x00, 0x00, 0x00,
      0x00, 0x00, 0x00, 0x00, 0x97, 0x00, 0x01, 0xb5]"

definition no_command :: http_result where
  "no_command = Response 200 (JsonBody (JArr []))"

definition post_fails :: "string \<Rightarrow> pyval \<Rightarrow> http_result" where
  "post_fails sensor_type v = Response 500 NotJson"

text \<open>31 degrees, 40 percent, PM2.5 of 20, gas signal low, no command, every post fails.\<close>

definition warm_room :: inputs where
  "warm_room =
     \<lparr>control_response = no_command,
      dht_device = Some \<lparr>temperature = Inr (Some 31), humidity = Inr (Some 40)\<rparr>,
      ser = Some \<lparr>io_fault = False, in_buf = pms_frame 0 20\<rparr>,
      gpio_in = (\<lambda>pin. LOW),
      post_response = post_fails\<rparr>"

text \<open>Neither the DHT11 nor the serial port could be opened.\<close>

definition blind :: inputs where
  "blind = warm_room\<lparr>dht_device := None, ser := None\<rparr>"

text \<open>No DHT11, PM2.5 of 80, gas signal high.\<close>

definition dusty_room :: inputs where
  "dusty_room =
     warm_room\<lparr>dht_device := None,
               ser := Some \<lparr>io_fault = False, in_buf = pms_frame 0 80\<rparr>,
               gpio_in := (\<lambda>pin. pin = 17)\<rparr>"

text \<open>The warm room, with the user's interrupt arriving while the DHT11 is read.\<close>

definition interrupted_room :: inputs where
  "interrupted_room =
     warm_room\<lparr>dht_device :=
                 Some \<lparr>temperature = Inl KeyboardInterrupt, humidity = Inr (Some 40)\<rparr>\<rparr>"

definition fan_off_by_user :: json where
  "fan_off_by_user =
     JObj [(''target'', JStr ''fan''), (''action'', JStr ''off''), (''source'', JStr ''user'')]"

definition led_off :: json where
  "led_off = JObj [(''target'', JStr ''led''), (''action'', JStr ''off'')]"


text \<open>The warm room, with a manual fan-off as the newest of two commands.\<close>

definition manual_off :: inputs where
  "manual_off =
     warm_room\<lparr>control_response := Response 200 (JsonBody (JArr [fan_off_by_user, led_off]))\<rparr>"

section \<open>Properties\<close>

subsection \<open>Traces\<close>

lemma posts_append: "posts (xs @ ys) = posts xs @ posts ys"
  by (induction xs rule: posts.induct) auto

lemma posted_append: "posted n (xs @ ys) = posted n xs @ posted n ys"
  by (induction n xs rule: posted.induct) auto

lemma gpio_writes_append: "gpio_writes p (xs @ ys) = gpio_writes p xs @ gpio_writes p ys"
  by (induction p xs rule: gpio_writes.induct) auto

lemma new_events_append: "trace st' = trace st @ evs \<Longrightarrow> new_events st st' = evs"
  by (simp add: new_events_def)

subsection \<open>The indicator driver\<close>

lemma gpio_set_led:
  "gpio (set_led status st) =
     (gpio st)(27 := (status = ''good''), 22 := (status = ''moderate''), 23 := (status = ''bad''))"
  by (auto simp: set_led_def LED_PINS_def GPIO_output_def fun_eq_iff)

lemma trace_set_led:
  "trace (set_led status st) = trace st @
     [GpioOutput 27 (status = ''good''), GpioOutput 22 (status = ''moderate''),
      GpioOutput 23 (status = ''bad'')]"
  by (auto simp: set_led_def LED_PINS_def GPIO_output_def)

lemma set_led_fields:
  "last_sent_temp (set_led status st) = last_sent_temp st"
  "last_sent_humid (set_led status st) = last_sent_humid st"
  "last_sent_pm2_5 (set_led status st) = last_sent_pm2_5 st"
  "auto_fan_enabled (set_led status st) = auto_fan_enabled st"
  "led_enabled (set_led status st) = led_enabled st"
  by (auto simp: set_led_def LED_PINS_def GPIO_output_def)

text \<open>
  Claim C9. After \<^verbatim>\<open>set_led(status)\<close>, every pin of \<^verbatim>\<open>LED_PINS\<close> other than the
  placeholder -1 is high exactly when its name is the status: with \<^verbatim>\<open>'off'\<close> all three
  level pins are low, with a level name that level's pin is high and the other two are
  low. So at most one level pin is high after any call, and no other pin is touched.
\<close>

theorem set_led_one_hot:
  "(\<forall>(name, pin) \<in> set LED_PINS. pin \<noteq> -1 \<longrightarrow> gpio (set_led status st) pin = (name = status))
   \<and> length (filter (\<lambda>(name, pin). pin \<noteq> -1 \<and> gpio (set_led status st) pin) LED_PINS) \<le> 1
   \<and> (\<forall>pin. pin \<notin> snd ` set LED_PINS \<longrightarrow> gpio (set_led status st) pin = gpio st pin)"
  by (auto simp: gpio_set_led LED_PINS_def)

theorem set_led_one_hot_witness:
  "gpio (set_led ''off'' (set_led ''bad'' initial_state)) 27 = LOW
   \<and> gpio (set_led ''off'' (set_led ''bad'' initial_state)) 22 = LOW
   \<and> gpio (set_led ''off'' (set_led ''bad'' initial_state)) 23 = LOW
   \<and> gpio (set_led ''moderate'' (set_led ''bad'' initial_state)) 27 = LOW
   \<and> gpio (set_led ''moderate'' (set_led ''bad'' initial_state)) 22 = HIGH
   \<and> gpio (set_led ''moderate'' (set_led ''bad'' initial_state)) 23 = LOW
   \<and> gpio (set_led ''moderate'' (set_led ''bad'' initial_state)) 18
       = gpio (set_led ''bad'' initial_state) 18"
  using set_led_one_hot [of "''off''" "set_led ''bad'' initial_state"]
        set_led_one_hot [of "''moderate''" "set_led ''bad'' initial_state"]
  by (simp add: LED_PINS_def)

subsection \<open>The particulate sensor\<close>

lemma int_from_bytes_big_2: "int_from_bytes_big [a, b] = uint a * 256 + uint b"
  by (simp add: int_from_bytes_big_def)

lemma uint_cat16: "uint (word_cat (a::byte) (b::byte) :: 16 word) = uint a * 256 + uint b"
proof -
  have a: "0 \<le> uint a" "uint a < 256" using uint_lt2p [of a] by simp_all
  have b: "0 \<le> uint b" "uint b < 256" using uint_lt2p [of b] by simp_all
  have "uint (word_cat a b :: 16 word) = take_bit 16 (concat_bit 8 (uint b) (uint a))"
    by (simp add: word_cat_eq' uint_word_of_int_eq)
  also have "concat_bit 8 (uint b) (uint a) = uint b + 256 * uint a"
    using b by (simp add: concat_bit_eq push_bit_eq_mult take_bit_int_eq_self)
  also have "take_bit 16 (uint b + 256 * uint a) = uint b + 256 * uint a"
    using a b by (intro take_bit_int_eq_self) auto
  finally show ?thesis by simp
qed

lemma slice_12_14:
  assumes "32 \<le> length buf"
  shows "take 2 (drop 12 (take 32 buf)) = [buf ! 12, buf ! 13]"
proof -
  have "take 2 (drop 12 (take 32 buf)) = take 2 (drop 12 buf)"
    by (simp add: drop_take)
  also have "\<dots> = [buf ! 12, buf ! 13]"
    using assms by (simp add: list_eq_iff_nth_eq) (auto simp: less_Suc_eq numeral_2_eq_2)
  finally show ?thesis .
qed

text \<open>
  Claim C8. \<^verbatim>\<open>read_pms7003\<close> returns a value only when the port exists, reading it does
  not raise, at least 32 bytes are waiting and the block starts with 0x42 0x4d; the value
  is then the unsigned 16-bit big-endian number in bytes 12 and 13 of the block. In every
  other case the result is \<^verbatim>\<open>None\<close>.
\<close>

theorem read_pms7003_framed:
  "fst (read_pms7003 port) =
     (case port of
        None \<Rightarrow> None
      | Some p \<Rightarrow>
          if \<not> io_fault p \<and> 32 \<le> length (in_buf p)
             \<and> in_buf p ! 0 = 0x42 \<and> in_buf p ! 1 = 0x4d
          then Some (uint (word_cat (in_buf p ! 12) (in_buf p ! 13) :: 16 word))
          else None)"
  by (auto simp: read_pms7003_def Let_def slice_12_14 int_from_bytes_big_2 uint_cat16
           split: option.splits)

theorem read_pms7003_framed_witness:
  "fst (read_pms7003 (Some \<lparr>io_fault = False, in_buf = pms_frame 0x01 0x2c @ [0x42]\<rparr>))
     = Some 300
   \<and> fst (read_pms7003 (Some \<lparr>io_fault = False, in_buf = tl (pms_frame 0x01 0x2c) @ [0x42]\<rparr>))
     = None
   \<and> fst (read_pms7003 (Some \<lparr>io_fault = False, in_buf = butlast (pms_frame 0x01 0x2c)\<rparr>))
     = None
   \<and> fst (read_pms7003 (Some \<lparr>io_fault = True, in_buf = pms_frame 0x01 0x2c\<rparr>)) = None
   \<and> fst (read_pms7003 None) = None"
  using read_pms7003_framed
          [of "Some \<lparr>io_fault = False, in_buf = pms_frame 0x01 0x2c @ [0x42]\<rparr>"]
        read_pms7003_framed
          [of "Some \<lparr>io_fault = False, in_buf = tl (pms_frame 0x01 0x2c) @ [0x42]\<rparr>"]
        read_pms7003_framed
          [of "Some \<lparr>io_fault = False, in_buf = butlast (pms_frame 0x01 0x2c)\<rparr>"]
        read_pms7003_framed [of "Some \<lparr>io_fault = True, in_buf = pms_frame 0x01 0x2c\<rparr>"]
        read_pms7003_framed [of None]
  by (simp add: pms_frame_def uint_cat16)

subsection \<open>The command step\<close>

lemma getitem0_raises: "getitem0 j = Inl e \<Longrightarrow> is_Exception e"
  by (induction j rule: getitem0.induct) auto

lemma dict_get_raises: "dict_get j k = Inl e \<Longrightarrow> is_Exception e"
  by (cases j) auto

lemma response_json_raises: "response_json b = Inl e \<Longrightarrow> is_Exception e"
  by (cases b) auto

lemma apply_latest_commands_try_raises:
  "apply_latest_commands_try r st = Inl e \<Longrightarrow> is_Exception e"
  by (auto simp: apply_latest_commands_try_def
           split: http_result.splits sum.splits if_splits
           dest: getitem0_raises dict_get_raises response_json_raises)

lemma apply_latest_commands_try_cases:
  "apply_latest_commands_try r st = Inr s \<Longrightarrow>
     s = st \<or> (\<exists>b. s = st\<lparr>led_enabled := b\<rparr>) \<or> (\<exists>b. s = st\<lparr>auto_fan_enabled := b\<rparr>)
     \<or> (\<exists>b. s = control_fan b (st\<lparr>auto_fan_enabled := False\<rparr>))"
  by (auto simp: apply_latest_commands_try_def
           split: http_result.splits sum.splits if_splits)

text \<open>The command step always returns: both handlers together catch what the block raises.\<close>

lemma apply_latest_commands_returns:
  "\<exists>s. apply_latest_commands r st = Inr s"
  by (auto simp: apply_latest_commands_def Let_def split: sum.splits
           dest: apply_latest_commands_try_raises)

lemma apply_latest_commands_cases:
  assumes "apply_latest_commands r st = Inr s"
  shows "s = st\<lparr>trace := trace st @ [HttpGet]\<rparr>
       \<or> (\<exists>b. s = st\<lparr>trace := trace st @ [HttpGet], led_enabled := b\<rparr>)
       \<or> (\<exists>b. s = st\<lparr>trace := trace st @ [HttpGet], auto_fan_enabled := b\<rparr>)
       \<or> (\<exists>b. s = control_fan b (st\<lparr>trace := trace st @ [HttpGet], auto_fan_enabled := False\<rparr>))"
  using assms
  by (auto simp: apply_latest_commands_def Let_def split: sum.splits if_splits
           dest!: apply_latest_commands_try_cases)

lemma apply_latest_commands_effect:
  assumes "apply_latest_commands r st = Inr s"
  shows "last_sent_temp s = last_sent_temp st"
    and "last_sent_humid s = last_sent_humid st"
    and "last_sent_pm2_5 s = last_sent_pm2_5 st"
    and "\<exists>evs. trace s = trace st @ HttpGet # evs \<and> posts evs = [] \<and> (\<forall>n. posted n evs = [])"
  using apply_latest_commands_cases [OF assms]
  by (auto simp: control_fan_def GPIO_output_def)

lemma apply_latest_commands_failed:
  "no_object_fetched r \<Longrightarrow> apply_latest_commands r st = Inr (st\<lparr>trace := trace st @ [HttpGet]\<rparr>)"
proof (cases r)
  case TransportError
  then show ?thesis
    by (simp add: apply_latest_commands_def apply_latest_commands_try_def Let_def)
next
  case (Response status_code body)
  assume f: "no_object_fetched r"
  show ?thesis
  proof (cases body)
    case NotJson
    with Response show ?thesis
      by (auto simp: apply_latest_commands_def apply_latest_commands_try_def Let_def)
  next
    case (JsonBody j)
    with Response f have "status_code \<noteq> 200 \<or> \<not> headed_by_object j" by simp
    then show ?thesis
    proof
      assume "status_code \<noteq> 200"
      with Response show ?thesis
        by (auto simp: apply_latest_commands_def apply_latest_commands_try_def Let_def)
    next
      assume h: "\<not> headed_by_object j"
      have "\<not> truthy j \<or> (\<exists>e. getitem0 j = Inl e \<and> is_Exception e)
            \<or> (\<exists>x. getitem0 j = Inr x \<and> dict_get x ''target'' = Inl AttributeError)"
        using h by (induction j rule: headed_by_object.induct) (auto simp: neq_Nil_conv)
      then show ?thesis using Response JsonBody
        by (auto simp: apply_latest_commands_def apply_latest_commands_try_def Let_def)
    qed
  qed
qed

lemma apply_no_command:
  "apply_latest_commands no_command st = Inr (st\<lparr>trace := trace st @ [HttpGet]\<rparr>)"
  by (simp add: apply_latest_commands_failed no_command_def)

lemma apply_manual_fan:
  assumes "dict_get (JObj kvs) ''target'' = Inr (JStr ''fan'')"
      and "dict_get (JObj kvs) ''source'' = Inr (JStr ''user'')"
  shows "apply_latest_commands (Response 200 (JsonBody (JArr (JObj kvs # rest)))) st
         = Inr (control_fan (dict_get (JObj kvs) ''action'' = Inr (JStr ''on''))
                  (st\<lparr>trace := trace st @ [HttpGet], auto_fan_enabled := False\<rparr>))"
  using assms
  by (auto simp: apply_latest_commands_def apply_latest_commands_try_def Let_def
           split: option.splits)

lemma sense_and_act_control_response:
  "sense_and_act (inp\<lparr>control_response := r\<rparr>) st = sense_and_act inp st"
  by (simp add: sense_and_act_def split: sum.splits prod.splits)

lemma apply_latest_commands_object:
  "apply_latest_commands (Response 200 (JsonBody (JArr (JObj kvs # rest)))) st
     = Inr (interpret_directive kvs (st\<lparr>trace := trace st @ [HttpGet]\<rparr>))"
  by (simp add: apply_latest_commands_def apply_latest_commands_try_def Let_def
        interpret_directive_def member_def)




text \<open>
  Claim C5. Of a non-empty list of commands exactly the first is interpreted. When it is
  an object, the command step returns the state that the specification's rule table gives
  for that object alone; and for any first element the command step, and with it the
  whole cycle, gives the same result as for the list of that element alone, whatever
  follows it.
\<close>

theorem only_newest_applied:
  "apply_latest_commands (Response 200 (JsonBody (JArr (JObj kvs # cs)))) st
     = Inr (interpret_directive kvs (st\<lparr>trace := trace st @ [HttpGet]\<rparr>))
   \<and> apply_latest_commands (Response status_code (JsonBody (JArr (c # cs)))) st
     = apply_latest_commands (Response status_code (JsonBody (JArr [c]))) st
   \<and> main_loop_body (inp\<lparr>control_response := Response status_code (JsonBody (JArr (c # cs)))\<rparr>) st
     = main_loop_body (inp\<lparr>control_response := Response status_code (JsonBody (JArr [c]))\<rparr>) st"
proof -
  have "apply_latest_commands (Response status_code (JsonBody (JArr (c # cs)))) st
          = apply_latest_commands (Response status_code (JsonBody (JArr [c]))) st"
    by (simp add: apply_latest_commands_def apply_latest_commands_try_def Let_def)
  then show ?thesis
    by (simp add: main_loop_body_def sense_and_act_control_response
          apply_latest_commands_object cong: sum.case_cong)
qed

theorem only_newest_applied_witness:
  "led_enabled initial_state \<and> auto_fan_enabled initial_state
   \<and> apply_latest_commands (Response 200 (JsonBody (JArr [led_off, fan_off_by_user])))
        initial_state
       = Inr (initial_state\<lparr>trace := [HttpGet], led_enabled := False\<rparr>)
   \<and> apply_latest_commands (Response 200 (JsonBody (JArr [fan_off_by_user, led_off])))
        (initial_state\<lparr>gpio := (\<lambda>pin. HIGH)\<rparr>)
       = Inr (initial_state\<lparr>gpio := (\<lambda>pin. HIGH)(FAN_PIN := LOW),
                            trace := [HttpGet, GpioOutput FAN_PIN LOW],
                            auto_fan_enabled := False\<rparr>)"
  using only_newest_applied
          [of "[(''target'', JStr ''led''), (''action'', JStr ''off'')]" "[fan_off_by_user]"
              initial_state 200 led_off warm_room]
        only_newest_applied
          [of "[(''target'', JStr ''fan''), (''action'', JStr ''off''),
                (''source'', JStr ''user'')]" "[led_off]"
              "initial_state\<lparr>gpio := (\<lambda>pin. HIGH)\<rparr>" 200 fan_off_by_user warm_room]
  by (simp add: led_off_def fan_off_by_user_def interpret_directive_def member_def
        control_fan_def GPIO_output_def initial_state_def)

subsection \<open>Steps 2 to 4 of the loop body\<close>

lemma send_to_backend_eq:
  "send_to_backend post n v st = st\<lparr>trace := trace st @ [HttpPost n v]\<rparr>"
  by (simp add: send_to_backend_def Let_def split: http_result.splits)

lemma send_changed_eq:
  "send_changed post temp humid pm2_5 st =
     st\<lparr>last_sent_temp := (case temp of None \<Rightarrow> last_sent_temp st | Some t \<Rightarrow> Some t),
        last_sent_humid := (case humid of None \<Rightarrow> last_sent_humid st | Some h \<Rightarrow> Some h),
        last_sent_pm2_5 := (case pm2_5 of None \<Rightarrow> last_sent_pm2_5 st | Some p \<Rightarrow> Some p),
        trace := trace st @ changed_posts st temp humid pm2_5\<rparr>"
  by (cases temp; cases humid; cases pm2_5)
     (auto simp: send_changed_def send_to_backend_eq changed_posts_def Let_def)

lemma fan_wanted_iff:
  "fan_wanted temp pm2_5 \<longleftrightarrow>
     (\<exists>t. temp = Some t \<and> t \<ge> 30) \<or> (\<exists>p. pm2_5 = Some p \<and> p \<ge> 75)"
  by (auto simp: fan_wanted_def split: option.splits)

lemma auto_fan_eq:
  "auto_fan temp pm2_5 st =
     (if auto_fan_enabled st then GPIO_output FAN_PIN (fan_wanted temp pm2_5) st else st)"
  by (cases temp; cases pm2_5)
     (auto simp: auto_fan_def control_fan_def fan_wanted_def AUTO_FAN_TEMP_THRESHOLD_def
                 AUTO_FAN_PM25_THRESHOLD_def)

lemma report_and_actuate_eq:
  "report_and_actuate post temp humid pm2_5 gas st =
     set_led (led_status (led_enabled st) pm2_5 gas)
       (auto_fan temp pm2_5 (send_changed post temp humid pm2_5 st))"
  by (simp add: report_and_actuate_def Let_def auto_fan_eq send_changed_eq GPIO_output_def)

lemma trace_report_and_actuate:
  "trace (report_and_actuate post temp humid pm2_5 gas st) =
     trace st @ changed_posts st temp humid pm2_5 @ decision_events temp pm2_5 gas st"
  by (simp add: report_and_actuate_eq trace_set_led auto_fan_eq send_changed_eq GPIO_output_def
                decision_events_def Let_def)

lemma gpio_fan_report_and_actuate:
  "gpio (report_and_actuate post temp humid pm2_5 gas st) FAN_PIN =
     (if auto_fan_enabled st then fan_wanted temp pm2_5 else gpio st FAN_PIN)"
  by (simp add: report_and_actuate_eq gpio_set_led auto_fan_eq send_changed_eq GPIO_output_def
                FAN_PIN_def)

lemma last_sent_report_and_actuate:
  "last_sent_temp (report_and_actuate post temp humid pm2_5 gas st) =
     (case temp of None \<Rightarrow> last_sent_temp st | Some t \<Rightarrow> Some t)"
  "last_sent_humid (report_and_actuate post temp humid pm2_5 gas st) =
     (case humid of None \<Rightarrow> last_sent_humid st | Some h \<Rightarrow> Some h)"
  "last_sent_pm2_5 (report_and_actuate post temp humid pm2_5 gas st) =
     (case pm2_5 of None \<Rightarrow> last_sent_pm2_5 st | Some p \<Rightarrow> Some p)"
  by (simp_all add: report_and_actuate_eq set_led_fields auto_fan_eq send_changed_eq
        GPIO_output_def)

lemma flags_report_and_actuate:
  "auto_fan_enabled (report_and_actuate post temp humid pm2_5 gas st) = auto_fan_enabled st"
  "led_enabled (report_and_actuate post temp humid pm2_5 gas st) = led_enabled st"
  by (simp_all add: report_and_actuate_eq set_led_fields auto_fan_eq send_changed_eq
        GPIO_output_def)

lemma report_and_actuate_post:
  "report_and_actuate f temp humid pm2_5 gas st = report_and_actuate post temp humid pm2_5 gas st"
  by (simp add: report_and_actuate_eq send_changed_eq)

lemma posts_changed_posts:
  "posted ''temperature'' (changed_posts st t h p) =
     (case t of None \<Rightarrow> [] | Some x \<Rightarrow> if last_sent_temp st = Some x then [] else [PyFloat x])"
  "posted ''humidity'' (changed_posts st t h p) =
     (case h of None \<Rightarrow> [] | Some x \<Rightarrow> if last_sent_humid st = Some x then [] else [PyFloat x])"
  "posted ''pm25'' (changed_posts st t h p) =
     (case p of None \<Rightarrow> [] | Some x \<Rightarrow> if last_sent_pm2_5 st = Some x then [] else [PyInt x])"
  "set (map fst (posts (changed_posts st t h p))) \<subseteq> {''temperature'', ''humidity'', ''pm25''}"
  "gpio_writes pin (changed_posts st t h p) = []"
  by (auto simp: changed_posts_def split: option.splits)

lemma decision_events_obs:
  "posted n (decision_events temp pm2_5 gas st) = []"
  "posts (decision_events temp pm2_5 gas st) = []"
  "gpio_writes FAN_PIN (decision_events temp pm2_5 gas st) =
     (if auto_fan_enabled st then [fan_wanted temp pm2_5] else [])"
  by (simp_all add: decision_events_def Let_def FAN_PIN_def)

lemma sense_and_act_returns:
  "read_dht11 (dht_device inp) = Inr (temp, humid) \<Longrightarrow>
     sense_and_act inp st =
       Inr (report_and_actuate (post_response inp) temp humid (pm2_5_reading inp)
              (read_mq135 (gpio_in inp)) st)"
  by (simp add: sense_and_act_def pm2_5_reading_def)

lemma sense_and_act_interrupted:
  "read_dht11 (dht_device inp) = Inl e \<Longrightarrow> sense_and_act inp st = Inl e"
  by (simp add: sense_and_act_def)

text \<open>\<^verbatim>\<open>read_dht11\<close> lets through only what does not derive from \<^verbatim>\<open>Exception\<close>.\<close>

lemma read_dht11_raises: "read_dht11 dev = Inl e \<Longrightarrow> \<not> is_Exception e"
  by (auto simp: read_dht11_def split: option.splits sum.splits if_splits)

subsection \<open>One cycle\<close>

lemma main_loop_body_eq:
  "apply_latest_commands (control_response inp) st = Inr st1 \<Longrightarrow>
   read_dht11 (dht_device inp) = Inr (temp, humid) \<Longrightarrow>
     main_loop_body inp st =
       Inr (report_and_actuate (post_response inp) temp humid (pm2_5_reading inp)
              (read_mq135 (gpio_in inp)) st1)"
  by (simp add: main_loop_body_def sense_and_act_returns)

text \<open>An interrupt during the DHT11 read ends the cycle, and with it the loop.\<close>

lemma main_loop_body_interrupted:
  "read_dht11 (dht_device inp) = Inl e \<Longrightarrow> main_loop_body inp st = Inl e"
  using apply_latest_commands_returns [of "control_response inp" st]
  by (auto simp: main_loop_body_def sense_and_act_interrupted)

lemma main_loop_body_returns:
  assumes "read_dht11 (dht_device inp) = Inr (temp, humid)"
  obtains st1 where "apply_latest_commands (control_response inp) st = Inr st1"
    and "main_loop_body inp st =
           Inr (report_and_actuate (post_response inp) temp humid (pm2_5_reading inp)
                  (read_mq135 (gpio_in inp)) st1)"
  using apply_latest_commands_returns [of "control_response inp" st] main_loop_body_eq assms
  by blast

text \<open>
  A cycle in which the DHT11 read returns comes to its end, and its posts and last-sent
  values are those of step 3.
\<close>

lemma main_loop_body_posts:
  assumes "read_dht11 (dht_device inp) = Inr (temp, humid)"
  shows "\<exists>st'. main_loop_body inp st = Inr st'
     \<and> posts (new_events st st') = posts (changed_posts st temp humid (pm2_5_reading inp))
     \<and> (\<forall>n. posted n (new_events st st') =
           posted n (changed_posts st temp humid (pm2_5_reading inp)))
     \<and> last_sent_temp st' = (case temp of None \<Rightarrow> last_sent_temp st | Some t \<Rightarrow> Some t)
     \<and> last_sent_humid st' = (case humid of None \<Rightarrow> last_sent_humid st | Some h \<Rightarrow> Some h)
     \<and> last_sent_pm2_5 st' =
           (case pm2_5_reading inp of None \<Rightarrow> last_sent_pm2_5 st | Some p \<Rightarrow> Some p)"
proof -
  define pm where "pm = pm2_5_reading inp"
  define gas where "gas = read_mq135 (gpio_in inp)"
  obtain st1 where a: "apply_latest_commands (control_response inp) st = Inr st1"
    and b: "main_loop_body inp st =
              Inr (report_and_actuate (post_response inp) temp humid pm gas st1)"
    unfolding pm_def gas_def by (rule main_loop_body_returns [OF assms])
  define st' where "st' = report_and_actuate (post_response inp) temp humid pm gas st1"
  have b': "main_loop_body inp st = Inr st'"
    by (simp add: b st'_def)
  note e = apply_latest_commands_effect [OF a]
  from e(4) obtain evs where evs: "trace st1 = trace st @ HttpGet # evs" "posts evs = []"
    "\<forall>n. posted n evs = []" by blast
  have cp: "changed_posts st1 = changed_posts st"
    by (simp add: changed_posts_def e(1,2,3) fun_eq_iff cong: option.case_cong)
  have tr: "trace st' =
      trace st @ (HttpGet # evs @ changed_posts st temp humid pm @ decision_events temp pm gas st1)"
    by (simp add: st'_def trace_report_and_actuate evs cp)
  have ne: "new_events st st' =
      HttpGet # evs @ changed_posts st temp humid pm @ decision_events temp pm gas st1"
    by (rule new_events_append [OF tr])
  have 1: "posts (new_events st st') = posts (changed_posts st temp humid pm)"
    by (simp add: ne posts_append evs decision_events_obs)
  have 2: "\<forall>n. posted n (new_events st st') = posted n (changed_posts st temp humid pm)"
    by (simp add: ne posted_append evs decision_events_obs)
  have 3: "last_sent_temp st' = (case temp of None \<Rightarrow> last_sent_temp st | Some t \<Rightarrow> Some t)"
    "last_sent_humid st' = (case humid of None \<Rightarrow> last_sent_humid st | Some h \<Rightarrow> Some h)"
    "last_sent_pm2_5 st' = (case pm of None \<Rightarrow> last_sent_pm2_5 st | Some p \<Rightarrow> Some p)"
    by (simp_all add: st'_def last_sent_report_and_actuate e(1,2,3) cong: option.case_cong)
  show ?thesis
    using b' 1 2 3 unfolding pm_def by blast
qed

lemma main_loop_body_post_response:
  "main_loop_body (inp\<lparr>post_response := f\<rparr>) st = main_loop_body inp st"
  by (simp add: main_loop_body_def sense_and_act_def
        report_and_actuate_post [of f _ _ _ _ _ "post_response inp"]
        cong: sum.case_cong split: sum.splits prod.splits)

lemma pm2_5_reading_gpio_in:
  "pm2_5_reading (inp\<lparr>gpio_in := levels\<rparr>) = pm2_5_reading inp"
  by (simp add: pm2_5_reading_def)

lemma read_mq135_01: "read_mq135 levels = 0 \<or> read_mq135 levels = 1"
  by (simp add: read_mq135_def GPIO_input_def)

lemma led_status_indicator_level:
  "gas = 0 \<or> gas = 1 \<Longrightarrow> led_status enabled pm gas = indicator_level enabled pm gas"
  by (auto simp: led_status_def indicator_level_def split: option.splits)

subsection \<open>The concrete inputs, evaluated\<close>

lemma readings_warm_room:
  "read_dht11 (dht_device warm_room) = Inr (Some 31, Some 40)"
  "pm2_5_reading warm_room = Some 20" "read_mq135 (gpio_in warm_room) = 0"
  "control_response warm_room = no_command"
  by (simp_all add: pm2_5_reading_def warm_room_def read_dht11_def read_dht11_try_def
        py_float_def read_pms7003_def pms_frame_def Let_def
        int_from_bytes_big_def read_mq135_def GPIO_input_def)

lemma readings_blind:
  "read_dht11 (dht_device blind) = Inr (None, None)"
  "pm2_5_reading blind = None" "read_mq135 (gpio_in blind) = 0"
  "control_response blind = no_command"
  by (simp_all add: pm2_5_reading_def warm_room_def
        read_dht11_def read_pms7003_def blind_def read_mq135_def GPIO_input_def)

lemma readings_dusty_room:
  "read_dht11 (dht_device dusty_room) = Inr (None, None)"
  "pm2_5_reading dusty_room = Some 80" "read_mq135 (gpio_in dusty_room) = 1"
  "control_response dusty_room = no_command"
  by (simp_all add: pm2_5_reading_def warm_room_def
        dusty_room_def read_dht11_def read_pms7003_def pms_frame_def Let_def
        int_from_bytes_big_def read_mq135_def GPIO_input_def MQ135_PIN_def)

lemma readings_manual_off:
  "read_dht11 (dht_device manual_off) = Inr (Some 31, Some 40)"
  using readings_warm_room(1) by (simp add: manual_off_def)

text \<open>
  The interrupt is not caught by \<^verbatim>\<open>read_dht11\<close>; the cycle, and a loop of any
  further cycles, is left with it.
\<close>

lemma interrupted_room_leaves:
  "read_dht11 (dht_device interrupted_room) = Inl KeyboardInterrupt"
  "main_loop_body interrupted_room st = Inl KeyboardInterrupt"
  "main_loop (interrupted_room # inps) st = Inl KeyboardInterrupt"
proof -
  show a: "read_dht11 (dht_device interrupted_room) = Inl KeyboardInterrupt"
    by (simp add: interrupted_room_def read_dht11_def read_dht11_try_def)
  show b: "main_loop_body interrupted_room st = Inl KeyboardInterrupt"
    by (rule main_loop_body_interrupted [OF a])
  show "main_loop (interrupted_room # inps) st = Inl KeyboardInterrupt"
    by (simp add: b)
qed

subsection \<open>Telemetry\<close>

text \<open>
  Claim C7. In every cycle (one in which the DHT11 read returns, with a reading or
  without; an interrupt there ends the loop) and for each of temperature, humidity and
  PM2.5, one post is made for the metric when its reading is present and differs from the
  stored last-sent value (which is \<^verbatim>\<open>None\<close> before the first send), and none
  otherwise; an absent reading is not posted and leaves the stored value as it was.
\<close>

theorem report_iff_changed:
  assumes "read_dht11 (dht_device inp) = Inr (temp, humid)"
  shows "\<exists>st'. main_loop_body inp st = Inr st'
     \<and> posted ''temperature'' (new_events st st') =
         (case temp of None \<Rightarrow> []
          | Some t \<Rightarrow> if last_sent_temp st = Some t then [] else [PyFloat t])
     \<and> posted ''humidity'' (new_events st st') =
         (case humid of None \<Rightarrow> []
          | Some h \<Rightarrow> if last_sent_humid st = Some h then [] else [PyFloat h])
     \<and> posted ''pm25'' (new_events st st') =
         (case pm2_5_reading inp of None \<Rightarrow> []
          | Some p \<Rightarrow> if last_sent_pm2_5 st = Some p then [] else [PyInt p])
     \<and> (temp = None \<longrightarrow> last_sent_temp st' = last_sent_temp st)
     \<and> (humid = None \<longrightarrow> last_sent_humid st' = last_sent_humid st)
     \<and> (pm2_5_reading inp = None \<longrightarrow> last_sent_pm2_5 st' = last_sent_pm2_5 st)"
  using main_loop_body_posts [OF assms, of st] by (auto simp: posts_changed_posts)

theorem report_iff_changed_witness:
  "read_dht11 (dht_device warm_room) = Inr (Some 31, Some 40)
   \<and> posted ''temperature''
     (new_events initial_state (projr (main_loop_body warm_room initial_state))) = [PyFloat 31]
   \<and> posted ''pm25''
     (new_events initial_state (projr (main_loop_body warm_room initial_state))) = [PyInt 20]
   \<and> read_dht11 (dht_device blind) = Inr (None, None)
   \<and> last_sent_temp (projr (main_loop_body blind (initial_state\<lparr>last_sent_temp := Some 31\<rparr>)))
       = Some 31
   \<and> posted ''temperature''
       (new_events (initial_state\<lparr>last_sent_temp := Some 31\<rparr>)
          (projr (main_loop_body warm_room (initial_state\<lparr>last_sent_temp := Some 31\<rparr>)))) = []"
  using report_iff_changed [OF readings_warm_room(1), of initial_state]
        report_iff_changed [OF readings_blind(1), of "initial_state\<lparr>last_sent_temp := Some 31\<rparr>"]
        report_iff_changed
          [OF readings_warm_room(1), of "initial_state\<lparr>last_sent_temp := Some 31\<rparr>"]
  by (auto simp: readings_warm_room readings_blind initial_state_def)

text \<open>
  Claim C10. Every post of a cycle carries one of the sensor types temperature, humidity
  and pm25. The level of the gas sensor's pin changes neither the posts of the cycle nor
  the last-sent values it leaves; the state has no last-sent field for the gas reading.
\<close>

theorem gas_never_reported:
  assumes "read_dht11 (dht_device inp) = Inr (temp, humid)"
  shows "\<exists>st' st''. main_loop_body inp st = Inr st'
     \<and> set (map fst (posts (new_events st st'))) \<subseteq> {''temperature'', ''humidity'', ''pm25''}
     \<and> main_loop_body (inp\<lparr>gpio_in := levels\<rparr>) st = Inr st''
     \<and> posts (new_events st st'') = posts (new_events st st')
     \<and> last_sent_temp st'' = last_sent_temp st'
     \<and> last_sent_humid st'' = last_sent_humid st'
     \<and> last_sent_pm2_5 st'' = last_sent_pm2_5 st'"
proof -
  have g: "read_dht11 (dht_device (inp\<lparr>gpio_in := levels\<rparr>)) = Inr (temp, humid)"
    using assms by simp
  show ?thesis
    using main_loop_body_posts [OF assms, of st] main_loop_body_posts [OF g, of st]
      posts_changed_posts(4) [of st temp humid "pm2_5_reading inp"]
    by (auto simp: pm2_5_reading_gpio_in)
qed

theorem gas_never_reported_witness:
  "read_dht11 (dht_device warm_room) = Inr (Some 31, Some 40)
   \<and> read_mq135 (gpio_in warm_room) = 0
   \<and> read_mq135 (gpio_in (warm_room\<lparr>gpio_in := (\<lambda>pin. HIGH)\<rparr>)) = 1
   \<and> set (map fst (posts (new_events initial_state
          (projr (main_loop_body (warm_room\<lparr>gpio_in := (\<lambda>pin. HIGH)\<rparr>) initial_state)))))
       \<subseteq> {''temperature'', ''humidity'', ''pm25''}
   \<and> posts (new_events initial_state
          (projr (main_loop_body (warm_room\<lparr>gpio_in := (\<lambda>pin. HIGH)\<rparr>) initial_state)))
       = posts (new_events initial_state (projr (main_loop_body warm_room initial_state)))"
proof -
  have "read_mq135 (gpio_in warm_room) = 0"
    by (simp add: readings_warm_room)
  moreover have "read_mq135 (gpio_in (warm_room\<lparr>gpio_in := (\<lambda>pin. HIGH)\<rparr>)) = 1"
    by (simp add: read_mq135_def GPIO_input_def)
  ultimately show ?thesis
    using gas_never_reported [OF readings_warm_room(1), of initial_state "\<lambda>pin. HIGH"]
      readings_warm_room(1)
    by (elim exE conjE) simp
qed

text \<open>
  Claim C1, as stated, fails. In the warm room every post is answered with status 500.
  The first cycle from the initial state posts the temperature 31 and, although the post
  failed, stores 31 as the last-sent temperature, which was \<^verbatim>\<open>None\<close> before; the
  second cycle reads 31 again and posts no temperature, so that after two cycles the
  trace still holds the one post.
\<close>

theorem failed_send_counterexample:
  "post_response warm_room ''temperature'' (PyFloat 31) = Response 500 NotJson
   \<and> last_sent_temp initial_state = None
   \<and> \<not> isl (main_loop [warm_room, warm_room] initial_state)
   \<and> posted ''temperature'' (trace (projr (main_loop [warm_room] initial_state))) = [PyFloat 31]
   \<and> last_sent_temp (projr (main_loop [warm_room] initial_state)) = Some 31
   \<and> posted ''temperature'' (trace (projr (main_loop [warm_room, warm_room] initial_state)))
       = [PyFloat 31]"
proof -
  have a: "apply_latest_commands (control_response warm_room) st
             = Inr (st\<lparr>trace := trace st @ [HttpGet]\<rparr>)" for st
    by (simp add: readings_warm_room apply_no_command)
  have b: "main_loop_body warm_room st
             = Inr (report_and_actuate (post_response warm_room) (Some 31) (Some 40) (Some 20) 0
                      (st\<lparr>trace := trace st @ [HttpGet]\<rparr>))" for st
    using main_loop_body_eq [OF a readings_warm_room(1)] by (simp add: readings_warm_room)
  have c: "post_response warm_room ''temperature'' (PyFloat 31) = Response 500 NotJson"
    by (simp add: warm_room_def post_fails_def)
  show ?thesis
    by (simp add: b c trace_report_and_actuate last_sent_report_and_actuate
          changed_posts_def decision_events_def posted_append initial_state_def
          FAN_PIN_def Let_def)
qed

text \<open>
  Claim C1, amended. \<^verbatim>\<open>send_to_backend\<close> returns nothing, and the loop stores the
  value right after calling it. So a cycle (one in which the DHT11 read returns) ends the
  same whatever the posts are answered (\<open>f\<close> is any other answer to them); after it the
  stored last-sent value of each metric is the value just read when there was one, and
  the old value otherwise; and a following cycle that reads the same value for a metric
  makes no post for it, also after a failed send.
\<close>

theorem last_sent_follows_attempt:
  assumes "read_dht11 (dht_device inp) = Inr (temp, humid)"
      and "read_dht11 (dht_device inp') = Inr (temp', humid')"
  shows "\<exists>st'. main_loop_body inp st = Inr st'
     \<and> main_loop_body (inp\<lparr>post_response := f\<rparr>) st = Inr st'
     \<and> last_sent_temp st' = (case temp of None \<Rightarrow> last_sent_temp st | Some t \<Rightarrow> Some t)
     \<and> last_sent_humid st' = (case humid of None \<Rightarrow> last_sent_humid st | Some h \<Rightarrow> Some h)
     \<and> last_sent_pm2_5 st' =
         (case pm2_5_reading inp of None \<Rightarrow> last_sent_pm2_5 st | Some p \<Rightarrow> Some p)
     \<and> (\<exists>st''. main_loop_body inp' st' = Inr st''
          \<and> (temp' = temp \<longrightarrow> posted ''temperature'' (new_events st' st'') = [])
          \<and> (humid' = humid \<longrightarrow> posted ''humidity'' (new_events st' st'') = [])
          \<and> (pm2_5_reading inp' = pm2_5_reading inp
               \<longrightarrow> posted ''pm25'' (new_events st' st'') = []))"
proof -
  from main_loop_body_posts [OF assms(1), of st]
  obtain st' where 1: "main_loop_body inp st = Inr st'"
    and t: "last_sent_temp st' = (case temp of None \<Rightarrow> last_sent_temp st | Some t \<Rightarrow> Some t)"
    and h: "last_sent_humid st' = (case humid of None \<Rightarrow> last_sent_humid st | Some h \<Rightarrow> Some h)"
    and p: "last_sent_pm2_5 st' =
         (case pm2_5_reading inp of None \<Rightarrow> last_sent_pm2_5 st | Some p \<Rightarrow> Some p)"
    by blast
  from main_loop_body_posts [OF assms(2), of st']
  obtain st'' where 2: "main_loop_body inp' st' = Inr st''"
    and n: "\<forall>n. posted n (new_events st' st'') =
           posted n (changed_posts st' temp' humid' (pm2_5_reading inp'))"
    by blast
  have "temp' = temp \<longrightarrow> posted ''temperature'' (new_events st' st'') = []"
    by (simp add: n posts_changed_posts t split: option.splits)
  moreover have "humid' = humid \<longrightarrow> posted ''humidity'' (new_events st' st'') = []"
    by (simp add: n posts_changed_posts h split: option.splits)
  moreover have "pm2_5_reading inp' = pm2_5_reading inp
          \<longrightarrow> posted ''pm25'' (new_events st' st'') = []"
    by (simp add: n posts_changed_posts p split: option.splits)
  ultimately show ?thesis
    using 1 2 t h p by (simp add: main_loop_body_post_response)
qed

theorem last_sent_follows_attempt_witness:
  "read_dht11 (dht_device warm_room) = Inr (Some 31, Some 40)
   \<and> post_response warm_room ''temperature'' (PyFloat 31) = Response 500 NotJson
   \<and> last_sent_temp (projr (main_loop_body warm_room initial_state)) = Some 31
   \<and> posted ''temperature''
        (new_events (projr (main_loop_body warm_room initial_state))
           (projr (main_loop_body warm_room (projr (main_loop_body warm_room initial_state)))))
       = []"
  using last_sent_follows_attempt
          [OF readings_warm_room(1) readings_warm_room(1), of initial_state post_fails]
        readings_warm_room(1)
  by (auto simp: readings_warm_room) (simp add: warm_room_def post_fails_def)

subsection \<open>The decisions\<close>

text \<open>
  Claim C2. In every cycle (one in which the DHT11 read returns) the status handed to
  \<^verbatim>\<open>set_led\<close> is the specification's level for the indicator flag as the command step
  left it, the PM2.5 reading and the gas signal: off when the flag is false or PM2.5 is
  absent, good iff the signal is 0 and PM2.5 is below 35, bad iff the signal is 1 and
  PM2.5 is at least 75, moderate in the remaining cases.
\<close>

theorem indicator_quantization:
  assumes "apply_latest_commands (control_response inp) st = Inr st1"
      and "read_dht11 (dht_device inp) = Inr (temp, humid)"
  shows "led_status (led_enabled st1) (pm2_5_reading inp) (read_mq135 (gpio_in inp))
           = indicator_level (led_enabled st1) (pm2_5_reading inp) (read_mq135 (gpio_in inp))
         \<and> main_loop_body inp st =
             Inr (set_led
                    (indicator_level (led_enabled st1) (pm2_5_reading inp)
                       (read_mq135 (gpio_in inp)))
                    (auto_fan temp (pm2_5_reading inp)
                       (send_changed (post_response inp) temp humid (pm2_5_reading inp) st1)))"
  using main_loop_body_eq [OF assms] read_mq135_01 [of "gpio_in inp"]
  by (simp add: report_and_actuate_eq led_status_indicator_level)

theorem indicator_quantization_witness:
  "apply_latest_commands (control_response warm_room) initial_state
     = Inr (initial_state\<lparr>trace := trace initial_state @ [HttpGet]\<rparr>)
   \<and> read_dht11 (dht_device warm_room) = Inr (Some 31, Some 40)
   \<and> indicator_level True (pm2_5_reading warm_room) (read_mq135 (gpio_in warm_room)) = ''good''
   \<and> gpio (projr (main_loop_body warm_room initial_state)) 27 = HIGH
   \<and> gpio (projr (main_loop_body warm_room initial_state)) 22 = LOW
   \<and> gpio (projr (main_loop_body warm_room initial_state)) 23 = LOW
   \<and> indicator_level True (pm2_5_reading dusty_room) (read_mq135 (gpio_in dusty_room)) = ''bad''
   \<and> gpio (projr (main_loop_body dusty_room initial_state)) 23 = HIGH
   \<and> indicator_level True (pm2_5_reading blind) (read_mq135 (gpio_in blind)) = ''off''
   \<and> gpio (projr (main_loop_body blind initial_state)) 27 = LOW"
proof -
  have a: "apply_latest_commands (control_response warm_room) initial_state
     = Inr (initial_state\<lparr>trace := trace initial_state @ [HttpGet]\<rparr>)"
    by (simp add: readings_warm_room apply_no_command)
  have b: "apply_latest_commands (control_response dusty_room) initial_state
     = Inr (initial_state\<lparr>trace := trace initial_state @ [HttpGet]\<rparr>)"
    by (simp add: readings_dusty_room apply_no_command)
  have c: "apply_latest_commands (control_response blind) initial_state
     = Inr (initial_state\<lparr>trace := trace initial_state @ [HttpGet]\<rparr>)"
    by (simp add: readings_blind apply_no_command)
  have e: "led_enabled (initial_state\<lparr>trace := trace initial_state @ [HttpGet]\<rparr>)"
    by (simp add: initial_state_def)
  show ?thesis
    using indicator_quantization [OF a readings_warm_room(1)]
      indicator_quantization [OF b readings_dusty_room(1)]
      indicator_quantization [OF c readings_blind(1)] a
    by (simp add: e readings_warm_room readings_dusty_room readings_blind indicator_level_def
          gpio_set_led)
qed

text \<open>
  Claim C3. Let \<open>st1\<close> be the state the command step leaves, in a cycle in which the
  DHT11 read returns. When \<^verbatim>\<open>auto_fan_enabled\<close> holds in it, the rest of the cycle
  writes the fan pin once, high iff the temperature is present and at least 30.0 or PM2.5
  is present and at least 75. When it does not hold, the rest of the cycle never writes
  the fan pin, which keeps the level it had in \<open>st1\<close>.
\<close>

theorem auto_fan_policy:
  assumes "apply_latest_commands (control_response inp) st = Inr st1"
      and "read_dht11 (dht_device inp) = Inr (temp, humid)"
  shows "\<exists>st'. main_loop_body inp st = Inr st'
           \<and> (if auto_fan_enabled st1
               then gpio st' FAN_PIN =
                      ((\<exists>t. temp = Some t \<and> t \<ge> 30.0)
                       \<or> (\<exists>p. pm2_5_reading inp = Some p \<and> p \<ge> 75))
                    \<and> gpio_writes FAN_PIN (new_events st1 st') = [gpio st' FAN_PIN]
               else gpio st' FAN_PIN = gpio st1 FAN_PIN
                    \<and> gpio_writes FAN_PIN (new_events st1 st') = [])"
proof -
  define st' where "st' = report_and_actuate (post_response inp) temp humid (pm2_5_reading inp)
                            (read_mq135 (gpio_in inp)) st1"
  have "new_events st1 st' =
          changed_posts st1 temp humid (pm2_5_reading inp)
          @ decision_events temp (pm2_5_reading inp) (read_mq135 (gpio_in inp)) st1"
    by (rule new_events_append) (simp add: st'_def trace_report_and_actuate)
  then show ?thesis
    using main_loop_body_eq [OF assms]
    by (simp add: st'_def gpio_fan_report_and_actuate gpio_writes_append posts_changed_posts
          decision_events_obs fan_wanted_iff)
qed

theorem auto_fan_policy_witness:
  "apply_latest_commands (control_response warm_room) initial_state
     = Inr (initial_state\<lparr>trace := trace initial_state @ [HttpGet]\<rparr>)
   \<and> read_dht11 (dht_device warm_room) = Inr (Some 31, Some 40)
   \<and> gpio (projr (main_loop_body warm_room initial_state)) FAN_PIN = HIGH
   \<and> apply_latest_commands (control_response warm_room)
         (initial_state\<lparr>auto_fan_enabled := False\<rparr>)
     = Inr (initial_state\<lparr>auto_fan_enabled := False, trace := trace initial_state @ [HttpGet]\<rparr>)
   \<and> gpio (projr (main_loop_body warm_room (initial_state\<lparr>auto_fan_enabled := False\<rparr>)))
         FAN_PIN
       = LOW"
proof -
  have a: "apply_latest_commands (control_response warm_room) initial_state
     = Inr (initial_state\<lparr>trace := trace initial_state @ [HttpGet]\<rparr>)"
    by (simp add: readings_warm_room apply_no_command)
  have b: "apply_latest_commands (control_response warm_room)
             (initial_state\<lparr>auto_fan_enabled := False\<rparr>)
     = Inr (initial_state\<lparr>auto_fan_enabled := False, trace := trace initial_state @ [HttpGet]\<rparr>)"
    by (simp add: readings_warm_room apply_no_command)
  show ?thesis
    using auto_fan_policy [OF a readings_warm_room(1)]
      auto_fan_policy [OF b readings_warm_room(1)] a b
    by (auto simp: readings_warm_room initial_state_def)
qed

text \<open>
  Claim C4. When the newest fetched command is an object with target \<^verbatim>\<open>"fan"\<close> and
  source \<^verbatim>\<open>"user"\<close>, the command step clears \<^verbatim>\<open>auto_fan_enabled\<close> and writes the fan
  pin, high iff the action is \<^verbatim>\<open>"on"\<close>, right after the fetch. A cycle in which the DHT11
  read returns then ends with the flag false and the fan pin at that level: the manual
  write is the only write to the fan pin in the cycle, so the automatic policy does not
  override it.
\<close>

theorem manual_fan_override:
  assumes "control_response inp = Response 200 (JsonBody (JArr (JObj kvs # rest)))"
      and "dict_get (JObj kvs) ''target'' = Inr (JStr ''fan'')"
      and "dict_get (JObj kvs) ''source'' = Inr (JStr ''user'')"
      and "read_dht11 (dht_device inp) = Inr (temp, humid)"
  shows "\<exists>st1 st'. apply_latest_commands (control_response inp) st = Inr st1
           \<and> \<not> auto_fan_enabled st1
           \<and> new_events st st1
               = [HttpGet, GpioOutput FAN_PIN (dict_get (JObj kvs) ''action'' = Inr (JStr ''on''))]
           \<and> main_loop_body inp st = Inr st'
           \<and> \<not> auto_fan_enabled st'
           \<and> gpio st' FAN_PIN = (dict_get (JObj kvs) ''action'' = Inr (JStr ''on''))
           \<and> gpio_writes FAN_PIN (new_events st st')
               = [dict_get (JObj kvs) ''action'' = Inr (JStr ''on'')]
           \<and> take 2 (new_events st st')
               = [HttpGet, GpioOutput FAN_PIN (dict_get (JObj kvs) ''action'' = Inr (JStr ''on''))]"
proof -
  define on where "on = (dict_get (JObj kvs) ''action'' = Inr (JStr ''on''))"
  define st1 where
    "st1 = control_fan on (st\<lparr>trace := trace st @ [HttpGet], auto_fan_enabled := False\<rparr>)"
  define pm gas where "pm = pm2_5_reading inp" and "gas = read_mq135 (gpio_in inp)"
  define st' where "st' = report_and_actuate (post_response inp) temp humid pm gas st1"
  have a: "apply_latest_commands (control_response inp) st = Inr st1"
    using apply_manual_fan [OF assms(2,3)] assms(1) by (simp add: st1_def on_def)
  have f: "\<not> auto_fan_enabled st1" "gpio st1 FAN_PIN = on"
    "trace st1 = trace st @ [HttpGet, GpioOutput FAN_PIN on]"
    by (simp_all add: st1_def control_fan_def GPIO_output_def)
  have g: "new_events st st1 = [HttpGet, GpioOutput FAN_PIN on]"
    by (rule new_events_append [OF f(3)])
  have "trace st' = trace st @ ([HttpGet, GpioOutput FAN_PIN on]
          @ changed_posts st1 temp humid pm @ decision_events temp pm gas st1)"
    by (simp add: st'_def trace_report_and_actuate f(3))
  then have "new_events st st' = [HttpGet, GpioOutput FAN_PIN on]
          @ changed_posts st1 temp humid pm @ decision_events temp pm gas st1"
    by (rule new_events_append)
  then have "main_loop_body inp st = Inr st'
           \<and> \<not> auto_fan_enabled st'
           \<and> gpio st' FAN_PIN = on
           \<and> gpio_writes FAN_PIN (new_events st st') = [on]
           \<and> take 2 (new_events st st') = [HttpGet, GpioOutput FAN_PIN on]"
    using main_loop_body_eq [OF a assms(4)] f(1,2)
    by (simp add: st'_def pm_def gas_def gpio_fan_report_and_actuate flags_report_and_actuate
          gpio_writes_append posts_changed_posts decision_events_obs)
  then show ?thesis
    using a f(1) g unfolding on_def by blast
qed

theorem manual_fan_override_witness:
  "control_response manual_off = Response 200 (JsonBody (JArr [fan_off_by_user, led_off]))
   \<and> dict_get fan_off_by_user ''target'' = Inr (JStr ''fan'')
   \<and> dict_get fan_off_by_user ''source'' = Inr (JStr ''user'')
   \<and> read_dht11 (dht_device manual_off) = Inr (Some 31, Some 40)
   \<and> auto_fan_enabled (initial_state\<lparr>gpio := (\<lambda>pin. HIGH)\<rparr>)
   \<and> \<not> auto_fan_enabled
        (projr (main_loop_body manual_off (initial_state\<lparr>gpio := (\<lambda>pin. HIGH)\<rparr>)))
   \<and> gpio (projr (main_loop_body manual_off (initial_state\<lparr>gpio := (\<lambda>pin. HIGH)\<rparr>))) FAN_PIN
       = LOW"
proof -
  have a: "control_response manual_off
             = Response 200 (JsonBody (JArr (JObj [(''target'', JStr ''fan''),
                 (''action'', JStr ''off''), (''source'', JStr ''user'')] # [led_off])))"
    by (simp add: manual_off_def fan_off_by_user_def)
  have t: "dict_get (JObj [(''target'', JStr ''fan''), (''action'', JStr ''off''),
                 (''source'', JStr ''user'')]) ''target'' = Inr (JStr ''fan'')"
    and u: "dict_get (JObj [(''target'', JStr ''fan''), (''action'', JStr ''off''),
                 (''source'', JStr ''user'')]) ''source'' = Inr (JStr ''user'')"
    by simp_all
  show ?thesis
    using manual_fan_override
            [OF a t u readings_manual_off, of "initial_state\<lparr>gpio := (\<lambda>pin. HIGH)\<rparr>"]
          a readings_manual_off
    by (auto simp: fan_off_by_user_def initial_state_def)
qed

end
